theory Spec2Isabelle
  imports Complex_Main "HOL-Library.Word"
begin

section \<open>Values, effects and the service object\<close>

text \<open>
  The realtime client of Nirnay-112 exists twice in the repository:
  \<^verbatim>\<open>frontend/nirnay-ui/src/services/socket.js\<close> (the client with MP3 fragment buffering) and
  \<^verbatim>\<open>frontend/src/services/socket.js\<close> (the older client). Definitions without a suffix embed the
  first file; definitions with the suffix \<open>_legacy\<close> embed the second one where it differs.

  JavaScript values that travel through the service: the result of \<^verbatim>\<open>JSON.parse\<close>, the event
  objects handed to subscribers, thrown error objects and binary payloads.
\<close>

type_synonym byte = "8 word"

datatype jsval =
    Undefined
  | Null
  | Bool bool
  | Num real
  | Str string
  | Arr "jsval list"
  | Obj "(string \<times> jsval) list"
  | ErrorObj string
  | Bytes "byte list"

text \<open>Property read \<^verbatim>\<open>v.k\<close>: a \<^verbatim>\<open>TypeError\<close> on \<^verbatim>\<open>null\<close> and \<^verbatim>\<open>undefined\<close>, the own property of
  an object, \<^verbatim>\<open>undefined\<close> otherwise (none of the keys the service reads is inherited).\<close>

fun getProp :: "jsval \<Rightarrow> string \<Rightarrow> jsval option" where
  "getProp Undefined k = None"
| "getProp Null k = None"
| "getProp (Obj fs) k = Some (case map_of fs k of None \<Rightarrow> Undefined | Some v \<Rightarrow> v)"
| "getProp v k = Some Undefined"

text \<open>Truthiness, and the operator \<^verbatim>\<open>a || b\<close>.\<close>

fun truthy :: "jsval \<Rightarrow> bool" where
  "truthy Undefined = False"
| "truthy Null = False"
| "truthy (Bool b) = b"
| "truthy (Num x) = (x \<noteq> 0)"
| "truthy (Str s) = (s \<noteq> [])"
| "truthy v = True"

definition js_or :: "jsval \<Rightarrow> jsval \<Rightarrow> jsval" where
  "js_or a b = (if truthy a then a else b)"

text \<open>What a handler does to the outside world, in program order.\<close>

datatype effect =
    Notify jsval
  | WsOpen
  | WsSendText jsval
  | WsSendInt16 "int list"
  | WsSendBytes "byte list"
  | WsClose nat string
  | SetTimeoutReconnect nat
  | CloseAudioContext

text \<open>
  The fields of \<^verbatim>\<open>class WebSocketService\<close>. \<open>ws\<close> and \<open>audioContext\<close> record whether the
  field holds an object; subscribers are the callbacks of the \<^verbatim>\<open>Set\<close> in insertion order, each
  callback named by a number; \<open>mp3PlayTimeout\<close> is the deadline (in ms) of the pending flush
  timer, \<open>None\<close> when no timer is pending.
\<close>

record service =
  ws :: bool
  sessionId :: "string option"
  isConnected :: bool
  reconnectAttempts :: nat
  maxReconnectAttempts :: nat
  reconnectDelay :: nat
  subscribers :: "nat list"
  audioContext :: bool
  mp3Buffer :: "byte list list"
  mp3PlayTimeout :: "nat option"
  isPlaying :: bool

definition init :: service where
  "init = \<lparr> ws = False, sessionId = None, isConnected = False, reconnectAttempts = 0,
            maxReconnectAttempts = 5, reconnectDelay = 1000, subscribers = [],
            audioContext = False, mp3Buffer = [], mp3PlayTimeout = None, isPlaying = False \<rparr>"

section \<open>EventBus: subscribe, unsubscribe, notifySubscribers\<close>

datatype callback = Function nat | NotAFunction

definition subscribe :: "callback \<Rightarrow> service \<Rightarrow> service" where
  "subscribe cb s =
     (case cb of
        Function f \<Rightarrow>
          s\<lparr>subscribers := (if f \<in> set (subscribers s) then subscribers s
                             else subscribers s @ [f])\<rparr>
      | NotAFunction \<Rightarrow> s)"

definition unsubscribe :: "callback \<Rightarrow> service \<Rightarrow> service" where
  "unsubscribe cb s =
     (case cb of
        Function f \<Rightarrow> s\<lparr>subscribers := removeAll f (subscribers s)\<rparr>
      | NotAFunction \<Rightarrow> s)"

text \<open>The calls \<^verbatim>\<open>callback(event)\<close> that one \<^verbatim>\<open>notifySubscribers(event)\<close> makes; a callback that
  throws is caught and logged, so the remaining calls are made all the same.\<close>

definition notifySubscribers :: "service \<Rightarrow> jsval \<Rightarrow> (nat \<times> jsval) list" where
  "notifySubscribers s event = map (\<lambda>f. (f, event)) (subscribers s)"

datatype bus_op = Subscribe callback | Unsubscribe callback

fun bus_step :: "bus_op \<Rightarrow> service \<Rightarrow> service" where
  "bus_step (Subscribe cb) s = subscribe cb s"
| "bus_step (Unsubscribe cb) s = unsubscribe cb s"

fun bus_run :: "bus_op list \<Rightarrow> service \<Rightarrow> service" where
  "bus_run [] s = s"
| "bus_run (x # xs) s = bus_run xs (bus_step x s)"

definition invocations :: "nat \<Rightarrow> (nat \<times> jsval) list \<Rightarrow> nat" where
  "invocations f calls = length (filter (\<lambda>c. fst c = f) calls)"

section \<open>ConnectionManager: connect, open, close, reconnect, disconnect\<close>

text \<open>\<^verbatim>\<open>connect(sessionId)\<close> up to the creation of the socket; \<open>generated\<close> is what
  \<^verbatim>\<open>generateSessionId()\<close> returns (time and random digits).\<close>

definition connect :: "string \<Rightarrow> string option \<Rightarrow> service \<Rightarrow> service \<times> effect list" where
  "connect generated sid s =
     (let sid' = (case sid of None \<Rightarrow> generated
                  | Some x \<Rightarrow> if x = [] then generated else x)
      in (s\<lparr>sessionId := Some sid', ws := True\<rparr>, [WsOpen]))"

definition str_opt :: "string option \<Rightarrow> jsval" where
  "str_opt x = (case x of None \<Rightarrow> Null | Some v \<Rightarrow> Str v)"

definition onopen :: "service \<Rightarrow> service \<times> effect list" where
  "onopen s =
     (let s' = s\<lparr>isConnected := True, reconnectAttempts := 0, reconnectDelay := 1000\<rparr>
      in (s', [WsSendText (Obj [(''type'', Str ''session_init''),
                                (''session_id'', str_opt (sessionId s'))]),
               Notify (Obj [(''type'', Str ''connected''),
                            (''sessionId'', str_opt (sessionId s'))])]))"

definition onerror :: "service \<Rightarrow> service \<times> effect list" where
  "onerror s =
     (s, [Notify (Obj [(''type'', Str ''error''),
                       (''message'', Str ''WebSocket connection error''),
                       (''error'', ErrorObj ''Event'')])])"

definition attemptReconnect :: "service \<Rightarrow> service \<times> effect list" where
  "attemptReconnect s =
     (let s' = s\<lparr>reconnectAttempts := reconnectAttempts s + 1\<rparr>;
          delay = min (reconnectDelay s' * 2 ^ (reconnectAttempts s' - 1)) 30000
      in (s', [SetTimeoutReconnect delay]))"

definition onclose :: "nat \<Rightarrow> string \<Rightarrow> service \<Rightarrow> service \<times> effect list" where
  "onclose code reason s =
     (let s1 = s\<lparr>isConnected := False\<rparr>;
          ev = Notify (Obj [(''type'', Str ''disconnected''),
                            (''code'', Num (real code)), (''reason'', Str reason)])
      in if code \<noteq> 1000 \<and> reconnectAttempts s1 < maxReconnectAttempts s1
         then (let (s2, es) = attemptReconnect s1 in (s2, ev # es))
         else (s1, [ev]))"

definition disconnect :: "service \<Rightarrow> service \<times> effect list" where
  "disconnect s =
     (s\<lparr>ws := False, isConnected := False, mp3Buffer := [], isPlaying := False,
        mp3PlayTimeout := None, audioContext := False\<rparr>,
      (if ws s then [WsClose 1000 ''Client disconnect''] else []) @
      (if audioContext s then [CloseAudioContext] else []))"

definition getConnectionStatus :: "service \<Rightarrow> bool" where
  "getConnectionStatus s = isConnected s"

definition getSessionId :: "service \<Rightarrow> string option" where
  "getSessionId s = sessionId s"

text \<open>The reconnection timers that a list of effects sets, with their delays.\<close>

fun scheduled :: "effect list \<Rightarrow> nat list" where
  "scheduled [] = []"
| "scheduled (SetTimeoutReconnect d # es) = d # scheduled es"
| "scheduled (e # es) = scheduled es"

text \<open>
  A run of consecutive failures: the connection closes with the first code; when a
  reconnection is scheduled its timer calls \<^verbatim>\<open>connect(this.sessionId)\<close>, the new socket fails
  (\<^verbatim>\<open>onerror\<close>) and closes with the next code, and so on. The result lists the delay of every
  reconnection attempt that was scheduled.
\<close>

fun failures :: "string \<Rightarrow> nat list \<Rightarrow> service \<Rightarrow> nat list" where
  "failures g [] s = []"
| "failures g (c # cs) s =
     (let (s1, es) = onclose c [] s
      in case scheduled es of
           [] \<Rightarrow> []
         | d # _ \<Rightarrow> d # failures g cs (fst (onerror (fst (connect g (sessionId s1) s1)))))"


section \<open>MessageRouter: handleMessage and processMessage\<close>

definition field :: "jsval \<Rightarrow> string \<Rightarrow> jsval" where
  "field m k = (case getProp m k of None \<Rightarrow> Undefined | Some v \<Rightarrow> v)"

definition knownTags :: "string list" where
  "knownTags = [''session_initialized'', ''transcript'', ''user_transcript'', ''ai_transcript'',
                ''incident_summary'', ''decision_explanation'', ''transcription_status'',
                ''error'', ''audio_processed'']"

definition knownTags_legacy :: "string list" where
  "knownTags_legacy = [''session_initialized'', ''transcript'', ''user_transcript'',
                       ''ai_transcript'', ''incident_summary'', ''error'', ''audio_processed'']"

definition transcriptEvent :: "string \<Rightarrow> jsval \<Rightarrow> jsval \<Rightarrow> jsval" where
  "transcriptEvent nowISO t message =
     Obj [(''type'', Str ''transcript''),
          (''text'', field message ''text''),
          (''speaker'', js_or (field message ''speaker'')
                           (if t = Str ''ai_transcript'' then Str ''ai'' else Str ''user'')),
          (''timestamp'', js_or (field message ''timestamp'') (Str nowISO)),
          (''confidence'', field message ''confidence'')]"

text \<open>\<^verbatim>\<open>processMessage(message)\<close>: the \<^verbatim>\<open>switch\<close> on \<^verbatim>\<open>message.type\<close>. Reading \<^verbatim>\<open>.type\<close> of
  \<^verbatim>\<open>null\<close> throws (\<open>Inl\<close>); \<open>nowISO\<close> is \<^verbatim>\<open>new Date().toISOString()\<close>.\<close>

definition processMessage :: "string \<Rightarrow> jsval \<Rightarrow> string + effect list" where
  "processMessage nowISO message =
     (case getProp message ''type'' of
        None \<Rightarrow> Inl ''TypeError''
      | Some t \<Rightarrow> Inr (
          if t = Str ''session_initialized'' then
            [Notify (Obj [(''type'', Str ''session_initialized''),
                          (''sessionId'', field message ''session_id'')])]
          else if t = Str ''transcript'' \<or> t = Str ''user_transcript'' \<or> t = Str ''ai_transcript'' then
            [Notify (transcriptEvent nowISO t message)]
          else if t = Str ''incident_summary'' then
            [Notify (Obj [(''type'', Str ''incident_summary''),
                          (''incident'', js_or (field message ''summary'') (field message ''incident'')),
                          (''confidence'', field message ''confidence''),
                          (''missing_fields'', js_or (field message ''missing_fields'') (Arr []))])]
          else if t = Str ''decision_explanation'' then
            [Notify (Obj [(''type'', Str ''decision_explanation''),
                          (''urgency_score'', field message ''urgency_score''),
                          (''urgency_level'', field message ''urgency_level''),
                          (''top_3_contributing_factors'',
                             js_or (field message ''top_3_contributing_factors'') (Arr [])),
                          (''why_escalated'', field message ''why_escalated''),
                          (''confidence_warnings'',
                             js_or (field message ''confidence_warnings'') (Arr []))])]
          else if t = Str ''transcription_status'' then
            [Notify (Obj [(''type'', Str ''transcription_status''),
                          (''status'', field message ''status''),
                          (''message'', js_or (field message ''message'') (field message ''reason'')),
                          (''confidence'', field message ''confidence'')])]
          else if t = Str ''error'' then
            [Notify (Obj [(''type'', Str ''error''),
                          (''message'', field message ''message''),
                          (''error'', message)])]
          else if t = Str ''audio_processed'' then
            [Notify (Obj [(''type'', Str ''audio_processed''),
                          (''transcribed'', js_or (field message ''transcribed'') (Bool False))])]
          else []))"

definition processMessage_legacy :: "string \<Rightarrow> jsval \<Rightarrow> string + effect list" where
  "processMessage_legacy nowISO message =
     (case getProp message ''type'' of
        None \<Rightarrow> Inl ''TypeError''
      | Some t \<Rightarrow> Inr (
          if t = Str ''session_initialized'' then
            [Notify (Obj [(''type'', Str ''session_initialized''),
                          (''sessionId'', field message ''session_id'')])]
          else if t = Str ''transcript'' \<or> t = Str ''user_transcript'' \<or> t = Str ''ai_transcript'' then
            [Notify (transcriptEvent nowISO t message)]
          else if t = Str ''incident_summary'' then
            [Notify (Obj [(''type'', Str ''incident''),
                          (''incident'', js_or (field message ''summary'') (field message ''incident'')),
                          (''confidence'', field message ''confidence''),
                          (''missing_fields'', js_or (field message ''missing_fields'') (Arr []))])]
          else if t = Str ''error'' then
            [Notify (Obj [(''type'', Str ''error''),
                          (''message'', field message ''message''),
                          (''error'', message)])]
          else if t = Str ''audio_processed'' then
            [Notify (Obj [(''type'', Str ''audio_processed''),
                          (''transcribed'', js_or (field message ''transcribed'') (Bool False))])]
          else
            [Notify (Obj [(''type'', Str ''unknown''), (''message'', message)])]))"

definition parseFailed :: "string \<Rightarrow> jsval" where
  "parseFailed e = Obj [(''type'', Str ''error''),
                        (''message'', Str ''Failed to parse message''),
                        (''error'', ErrorObj e)]"

text \<open>
  The text branch of \<^verbatim>\<open>handleMessage\<close>: \<^verbatim>\<open>try { processMessage(JSON.parse(data)) } catch ...\<close>.
  \<open>JSON_parse\<close> is the platform's parser: \<open>None\<close> where it throws a \<^verbatim>\<open>SyntaxError\<close>.
\<close>

definition handleText ::
  "(string \<Rightarrow> jsval option) \<Rightarrow> string \<Rightarrow> string \<Rightarrow> service \<Rightarrow> service \<times> effect list" where
  "handleText JSON_parse nowISO data s =
     (case JSON_parse data of
        None \<Rightarrow> (s, [Notify (parseFailed ''SyntaxError'')])
      | Some message \<Rightarrow>
          (case processMessage nowISO message of
             Inl e \<Rightarrow> (s, [Notify (parseFailed e)])
           | Inr es \<Rightarrow> (s, es)))"

definition handleText_legacy ::
  "(string \<Rightarrow> jsval option) \<Rightarrow> string \<Rightarrow> string \<Rightarrow> service \<Rightarrow> service \<times> effect list" where
  "handleText_legacy JSON_parse nowISO data s =
     (case JSON_parse data of
        None \<Rightarrow> (s, [Notify (parseFailed ''SyntaxError'')])
      | Some message \<Rightarrow>
          (case processMessage_legacy nowISO message of
             Inl e \<Rightarrow> (s, [Notify (parseFailed e)])
           | Inr es \<Rightarrow> (s, es)))"

text \<open>\<^verbatim>\<open>handleAudioChunk\<close>: append the fragment, restart the 300 ms flush timer, notify.\<close>

definition handleAudioChunk :: "nat \<Rightarrow> byte list \<Rightarrow> service \<Rightarrow> service \<times> effect list" where
  "handleAudioChunk now audioData s =
     (s\<lparr>mp3Buffer := mp3Buffer s @ [audioData], mp3PlayTimeout := Some (now + 300)\<rparr>,
      [Notify (Obj [(''type'', Str ''audio_chunk''), (''data'', Bytes audioData)])])"

datatype frame = Binary "byte list" | Text string

definition handleMessage ::
  "(string \<Rightarrow> jsval option) \<Rightarrow> string \<Rightarrow> nat \<Rightarrow> frame \<Rightarrow> service \<Rightarrow> service \<times> effect list" where
  "handleMessage JSON_parse nowISO now fr s =
     (case fr of
        Binary d \<Rightarrow> handleAudioChunk now d s
      | Text data \<Rightarrow> handleText JSON_parse nowISO data s)"

text \<open>The events that a list of effects publishes, and the callback calls they make.\<close>

fun publishedEvents :: "effect list \<Rightarrow> jsval list" where
  "publishedEvents [] = []"
| "publishedEvents (Notify ev # es) = ev # publishedEvents es"
| "publishedEvents (e # es) = publishedEvents es"

definition deliveries :: "service \<Rightarrow> effect list \<Rightarrow> (nat \<times> jsval) list" where
  "deliveries s es = concat (map (notifySubscribers s) (publishedEvents es))"

section \<open>AudioCaptureEncoder: chunking and PCM conversion\<close>

text \<open>Storing a number into an \<^verbatim>\<open>Int16Array\<close>: truncate towards zero, wrap modulo \<open>2^16\<close>.\<close>

definition int16_store :: "real \<Rightarrow> int" where
  "int16_store v =
     (let t = (if v < 0 then - \<lfloor>- v\<rfloor> else \<lfloor>v\<rfloor>)
      in (t + 32768) mod 65536 - 32768)"

text \<open>The loop body of \<^verbatim>\<open>sendAudioChunk\<close> for one (finite) sample of the \<^verbatim>\<open>Float32Array\<close>;
  \<^verbatim>\<open>Math.round\<close> rounds halves up, as \<^const>\<open>round\<close> does.\<close>

definition encodeSample :: "real \<Rightarrow> int" where
  "encodeSample x =
     (let s = max (- 1) (min 1 x)
      in int16_store (max (- 32768) (min 32767 (real_of_int (round (s * 32768))))))"

definition encodeSample_legacy :: "real \<Rightarrow> int" where
  "encodeSample_legacy x =
     (let s = max (- 1) (min 1 x)
      in int16_store (if s < 0 then s * 32768 else s * 32767))"

datatype chunk = Float32Array "real list" | ArrayBuffer "byte list" | Blob "byte list" | OtherChunk

text \<open>\<^verbatim>\<open>sendAudioChunk(chunk)\<close>; \<open>readyOpen\<close> is \<^verbatim>\<open>ws.readyState === WebSocket.OPEN\<close>. A \<^verbatim>\<open>Blob\<close>
  has no \<^verbatim>\<open>byteLength\<close>, so the size test fails for it.\<close>

definition sendAudioChunk :: "bool \<Rightarrow> chunk \<Rightarrow> service \<Rightarrow> effect list" where
  "sendAudioChunk readyOpen c s =
     (if \<not> isConnected s \<or> \<not> ws s \<or> \<not> readyOpen then []
      else case c of
             Float32Array xs \<Rightarrow> if 2 * length xs > 0 then [WsSendInt16 (map encodeSample xs)] else []
           | ArrayBuffer bs \<Rightarrow> if length bs > 0 then [WsSendBytes bs] else []
           | Blob bs \<Rightarrow> []
           | OtherChunk \<Rightarrow> [])"

text \<open>
  \<^verbatim>\<open>processor.onaudioprocess\<close>, whose body is the same in both \<^verbatim>\<open>App.jsx\<close> files: the
  closure's \<^verbatim>\<open>audioBuffer\<close> before and after, and the chunk handed to
  \<^verbatim>\<open>socketService.sendAudioChunk\<close>, if any. \<open>guard\<close> is the value that the test at the top of the
  callback reads: the local variable \<^verbatim>\<open>isRecordingActive\<close> in nirnay-ui, the captured React
  state \<^verbatim>\<open>isRecording\<close> in the older \<^verbatim>\<open>App.jsx\<close>.
\<close>

definition chunkSize :: nat where
  "chunkSize = 8000"

definition onaudioprocess :: "bool \<Rightarrow> real list \<Rightarrow> real list \<Rightarrow> real list \<times> real list option" where
  "onaudioprocess guard audioBuffer inputData =
     (if \<not> guard then (audioBuffer, None)
      else (let buf = audioBuffer @ inputData
            in if length buf \<ge> chunkSize
               then (drop chunkSize buf, Some (take chunkSize buf))
               else (buf, None)))"

text \<open>The blocks delivered one after the other to a callback whose guard reads \<open>guard\<close>; the
  result is the remainder left in the buffer and the chunks emitted, in order.\<close>

fun capture :: "bool \<Rightarrow> real list \<Rightarrow> real list list \<Rightarrow> real list \<times> real list list" where
  "capture guard buf [] = (buf, [])"
| "capture guard buf (b # bs) =
     (case onaudioprocess guard buf b of
        (buf', None) \<Rightarrow> capture guard buf' bs
      | (buf', Some c) \<Rightarrow> (let (r, cs) = capture guard buf' bs in (r, c # cs)))"

text \<open>
  nirnay-ui: \<^verbatim>\<open>startRecording\<close> declares \<^verbatim>\<open>let audioBuffer = []\<close> and
  \<^verbatim>\<open>let isRecordingActive = true\<close> and installs the callback; the flag stays true until
  \<^verbatim>\<open>stopRecording\<close> calls \<^verbatim>\<open>_stopRecording\<close>. So the blocks delivered between start and stop are
  processed with the guard true, from the empty buffer.
\<close>

definition startRecording :: "real list list \<Rightarrow> real list \<times> real list list" where
  "startRecording blocks = capture True [] blocks"

text \<open>
  The older \<^verbatim>\<open>App.jsx\<close>: the callback tests \<^verbatim>\<open>isRecording\<close>, the \<^verbatim>\<open>useState\<close> value of the render in
  which \<^verbatim>\<open>startRecording\<close> was created (\<^verbatim>\<open>useCallback(..., [isRecording])\<close>). The callback is
  installed once and keeps that value; the later \<^verbatim>\<open>setIsRecording(true)\<close> changes the state of
  the next render, not the captured constant.
\<close>

definition startRecording_legacy :: "bool \<Rightarrow> real list list \<Rightarrow> real list \<times> real list list" where
  "startRecording_legacy isRecording blocks = capture isRecording [] blocks"

text \<open>
  \<^verbatim>\<open>toggleRecording\<close> of the older \<^verbatim>\<open>App.jsx\<close>, the only caller of \<^verbatim>\<open>startRecording\<close>, created in the
  same render: it stops when \<^verbatim>\<open>isRecording\<close> is true (\<open>None\<close>: no callback runs) and starts
  otherwise. The result is what the callback then makes of the blocks it is given.
\<close>

definition toggleRecording_legacy ::
  "bool \<Rightarrow> real list list \<Rightarrow> (real list \<times> real list list) option" where
  "toggleRecording_legacy isRecording blocks =
     (if isRecording then None else Some (startRecording_legacy isRecording blocks))"


section \<open>PlaybackScheduler: the flush timer and playMP3Buffer\<close>

text \<open>
  The service together with what the platform is doing for it: the \<^verbatim>\<open>Audio\<close> elements whose
  playback has been started and has not yet ended, failed or been declined (\<open>sounding\<close>), a log
  of every playback invocation with its time and its playable unit (\<open>started\<close>), and the events
  published so far. Each \<^verbatim>\<open>Audio\<close> element remembers whether the \<^verbatim>\<open>playMP3Buffer\<close> call that
  created it is still suspended at \<^verbatim>\<open>await playPromise\<close>.
\<close>

record audio =
  content :: "byte list"
  awaited :: bool

record player =
  svc :: service
  sounding :: "audio list"
  started :: "(nat \<times> byte list) list"
  emitted :: "effect list"


text \<open>
  \<^verbatim>\<open>playMP3Buffer()\<close> up to \<^verbatim>\<open>await playPromise\<close>. \<open>promise\<close> tells whether \<^verbatim>\<open>audio.play()\<close>
  returns a promise on this platform. Where it returns \<^verbatim>\<open>undefined\<close> (the branch for older
  browsers) the promise is resolved at once and the code after the \<^verbatim>\<open>await\<close> runs before any
  other event: the buffer has just been emptied, so it clears \<^verbatim>\<open>isPlaying\<close>.
\<close>

definition playMP3Buffer :: "bool \<Rightarrow> nat \<Rightarrow> player \<Rightarrow> player" where
  "playMP3Buffer promise now w =
     (let s = svc w
      in if isPlaying s \<or> mp3Buffer s = [] then w
         else (let combined = concat (mp3Buffer s);
                   w1 = w\<lparr>svc := s\<lparr>isPlaying := True, mp3Buffer := []\<rparr>,
                          sounding := sounding w @ [\<lparr>content = combined, awaited = promise\<rparr>],
                          started := started w @ [(now, combined)]\<rparr>
               in if promise then w1
                  else w1\<lparr>svc := (svc w1)\<lparr>isPlaying := False\<rparr>\<rparr>))"

text \<open>The code after \<^verbatim>\<open>await playPromise\<close>, once the promise has been resolved.\<close>

definition afterAwait :: "bool \<Rightarrow> nat \<Rightarrow> player \<Rightarrow> player" where
  "afterAwait promise now w =
     (if mp3Buffer (svc w) \<noteq> [] then playMP3Buffer promise now w
      else w\<lparr>svc := (svc w)\<lparr>isPlaying := False\<rparr>\<rparr>)"

definition remove_nth :: "nat \<Rightarrow> 'a list \<Rightarrow> 'a list" where
  "remove_nth i xs = take i xs @ drop (Suc i) xs"

definition autoplayBlocked :: jsval where
  "autoplayBlocked =
     Obj [(''type'', Str ''error''),
          (''message'', Str ''Audio autoplay blocked. Please click anywhere on the page to enable audio playback.''),
          (''error'', ErrorObj ''NotAllowedError'')]"

text \<open>
  What can happen to the player: a binary fragment arrives; the flush timer fires;
  the \<open>i\<close>-th sounding element ends (\<^verbatim>\<open>onended\<close>), fails (\<^verbatim>\<open>onerror\<close>), or has its \<^verbatim>\<open>play()\<close>
  promise rejected (with \<^verbatim>\<open>NotAllowedError\<close> or another error). An event that is not enabled
  (no pending timer, no such element) leaves the player as it is.
\<close>

datatype event =
    Fragment "byte list"
  | TimerFire
  | Ended nat
  | Errored nat
  | PlayRejected nat bool

fun step :: "bool \<Rightarrow> nat \<Rightarrow> event \<Rightarrow> player \<Rightarrow> player" where
  "step promise now (Fragment d) w =
     (let (s', es) = handleAudioChunk now d (svc w)
      in w\<lparr>svc := s', emitted := emitted w @ es\<rparr>)"
| "step promise now TimerFire w =
     (case mp3PlayTimeout (svc w) of
        None \<Rightarrow> w
      | Some deadline \<Rightarrow>
          (let w1 = w\<lparr>svc := (svc w)\<lparr>mp3PlayTimeout := None\<rparr>\<rparr>
           in if \<not> isPlaying (svc w1) \<and> mp3Buffer (svc w1) \<noteq> []
              then playMP3Buffer promise now w1 else w1))"
| "step promise now (Ended i) w =
     (if i < length (sounding w)
      then (let a = sounding w ! i;
                w1 = w\<lparr>svc := (svc w)\<lparr>isPlaying := False\<rparr>,
                       sounding := remove_nth i (sounding w)\<rparr>
            in if awaited a then afterAwait promise now w1 else w1)
      else w)"
| "step promise now (Errored i) w =
     (if i < length (sounding w)
      then (let a = sounding w ! i;
                w1 = w\<lparr>svc := (svc w)\<lparr>isPlaying := False\<rparr>,
                       sounding := remove_nth i (sounding w)\<rparr>
            in if awaited a then w1\<lparr>svc := (svc w1)\<lparr>isPlaying := False, mp3Buffer := []\<rparr>\<rparr>
               else w1)
      else w)"
| "step promise now (PlayRejected i notAllowed) w =
     (if promise \<and> i < length (sounding w)
      then (let a = sounding w ! i;
                w1 = w\<lparr>svc := (svc w)\<lparr>isPlaying := False\<rparr>,
                       sounding := remove_nth i (sounding w),
                       emitted := emitted w @ (if notAllowed then [Notify autoplayBlocked] else [])\<rparr>
            in if awaited a then afterAwait promise now w1 else w1)
      else w)"

text \<open>A sequence of events, each with the time at which it happens.\<close>

fun run :: "bool \<Rightarrow> (nat \<times> event) list \<Rightarrow> player \<Rightarrow> player" where
  "run promise [] w = w"
| "run promise ((t, e) # es) w = run promise es (step promise t e w)"





section \<open>Reconnection policy\<close>

lemma onclose_abnormal:
  "code \<noteq> 1000 \<Longrightarrow> reconnectAttempts s < maxReconnectAttempts s \<Longrightarrow>
   onclose code r s =
     (s\<lparr>isConnected := False, reconnectAttempts := reconnectAttempts s + 1\<rparr>,
      [Notify (Obj [(''type'', Str ''disconnected''), (''code'', Num (real code)),
                    (''reason'', Str r)]),
       SetTimeoutReconnect (min (reconnectDelay s * 2 ^ reconnectAttempts s) 30000)])"
  by (simp add: onclose_def attemptReconnect_def Let_def)

lemma onclose_quiet:
  "code = 1000 \<or> \<not> reconnectAttempts s < maxReconnectAttempts s \<Longrightarrow>
   onclose code r s =
     (s\<lparr>isConnected := False\<rparr>,
      [Notify (Obj [(''type'', Str ''disconnected''), (''code'', Num (real code)),
                    (''reason'', Str r)])])"
  by (auto simp add: onclose_def Let_def)

lemma failures_from:
  "reconnectDelay s = 1000 \<Longrightarrow> maxReconnectAttempts s = 5 \<Longrightarrow> \<forall>c \<in> set cs. c \<noteq> 1000 \<Longrightarrow>
   failures g cs s =
     take (length cs) (map (\<lambda>n. min (1000 * 2 ^ n) 30000) [reconnectAttempts s ..< 5])"
proof (induction cs arbitrary: s)
  case Nil
  then show ?case by simp
next
  case (Cons c cs)
  show ?case
  proof (cases "reconnectAttempts s < 5")
    case True
    let ?s' = "fst (onerror (fst (connect g (sessionId (fst (onclose c [] s)))
                                     (fst (onclose c [] s)))))"
    have c: "c \<noteq> 1000" using Cons.prems by simp
    have oc: "onclose c [] s =
        (s\<lparr>isConnected := False, reconnectAttempts := reconnectAttempts s + 1\<rparr>,
         [Notify (Obj [(''type'', Str ''disconnected''), (''code'', Num (real c)),
                       (''reason'', Str [])]),
          SetTimeoutReconnect (min (1000 * 2 ^ reconnectAttempts s) 30000)])"
      using onclose_abnormal[of c s "[]"] c True Cons.prems by simp
    have s': "reconnectDelay ?s' = 1000" "maxReconnectAttempts ?s' = 5"
       "reconnectAttempts ?s' = Suc (reconnectAttempts s)"
      using Cons.prems by (simp_all add: oc onerror_def connect_def Let_def)
    have ih: "failures g cs ?s' =
        take (length cs) (map (\<lambda>n. min (1000 * 2 ^ n) 30000) [Suc (reconnectAttempts s) ..< 5])"
      using Cons.IH[of ?s'] s' Cons.prems by simp
    have up: "[reconnectAttempts s ..< 5] = reconnectAttempts s # [Suc (reconnectAttempts s) ..< 5]"
      using True by (simp add: upt_conv_Cons)
    show ?thesis
      using ih by (simp add: oc up)
  next
    case False
    then have "onclose c [] s = (s\<lparr>isConnected := False\<rparr>,
      [Notify (Obj [(''type'', Str ''disconnected''), (''code'', Num (real c)),
                    (''reason'', Str [])])])"
      using onclose_quiet[of c s "[]"] Cons.prems by simp
    then show ?thesis using False by simp
  qed
qed

lemma backoff_table:
  "map (\<lambda>n. min (1000 * 2 ^ n) 30000) [0 ..< 5] = [1000, 2000, 4000, 8000, 16000::nat]"
  "map (\<lambda>n. min (1000 * 2 ^ (n - 1)) 30000) [1 ..< 6] = [1000, 2000, 4000, 8000, 16000::nat]"
  by (simp_all add: upt_rec)

text \<open>
  Claim C1. After a successful open, in a run of consecutive abnormal closes (each
  reconnection fails in turn), the delay scheduled before attempt \<open>n\<close> is
  \<open>min (1000 * 2^(n-1)) 30000\<close> ms for \<open>n = 1..5\<close>, that is 1000, 2000, 4000, 8000, 16000, and
  however long the run is, no sixth attempt is scheduled.
\<close>

theorem C1_reconnect_backoff:
  assumes "maxReconnectAttempts s = 5" and "1000 \<notin> set codes"
  shows "failures g codes (fst (onopen s))
           = take (length codes) (map (\<lambda>n. min (1000 * 2 ^ (n - 1)) 30000) [1 ..< 6])
       \<and> failures g codes (fst (onopen s))
           = take (length codes) [1000, 2000, 4000, 8000, 16000]
       \<and> length (failures g codes (fst (onopen s))) \<le> 5"
proof -
  let ?s = "fst (onopen s)"
  have s: "reconnectDelay ?s = 1000" "maxReconnectAttempts ?s = 5" "reconnectAttempts ?s = 0"
    using assms(1) by (simp_all add: onopen_def Let_def)
  have abnormal: "\<forall>c \<in> set codes. c \<noteq> 1000"
    using assms(2) by blast
  have eq: "failures g codes ?s = take (length codes) [1000, 2000, 4000, 8000, 16000]"
    using failures_from[OF s(1) s(2) abnormal, of g] s(3) backoff_table(1) by simp
  show ?thesis
    unfolding eq backoff_table(2) by simp
qed

theorem C1_reconnect_backoff_witness:
  "maxReconnectAttempts init = 5
   \<and> 1000 \<notin> set [1006, 1006, 1011, 1006, 1006, 1006, 1006::nat]
   \<and> failures ''g'' [1006, 1006, 1011, 1006, 1006, 1006, 1006] (fst (onopen init))
       = [1000, 2000, 4000, 8000, 16000]"
proof -
  have m: "maxReconnectAttempts init = 5"
    by (simp add: init_def)
  have h: "1000 \<notin> set [1006, 1006, 1011, 1006, 1006, 1006, 1006::nat]"
    by simp
  have "failures ''g'' [1006, 1006, 1011, 1006, 1006, 1006, 1006] (fst (onopen init))
        = take (length [1006, 1006, 1011, 1006, 1006, 1006, 1006::nat])
            [1000, 2000, 4000, 8000, 16000]"
    using C1_reconnect_backoff[OF m h, of "''g''"] by blast
  then show ?thesis using m h by simp
qed

text \<open>
  Claim C8. A close with code 1000 schedules no reconnection and leaves the attempt
  counter alone; a close with any other code schedules one reconnection (and counts it)
  as long as the counter is below the cap, and none once the cap is reached. The client's
  own \<^verbatim>\<open>disconnect()\<close> closes the socket with code 1000.
\<close>

theorem C8_close_code_decides_reconnect:
  "(code = 1000 \<longrightarrow> scheduled (snd (onclose code r s)) = []
                   \<and> reconnectAttempts (fst (onclose code r s)) = reconnectAttempts s)
   \<and> (code \<noteq> 1000 \<and> reconnectAttempts s < maxReconnectAttempts s \<longrightarrow>
        scheduled (snd (onclose code r s)) =
          [min (reconnectDelay s * 2 ^ reconnectAttempts s) 30000]
        \<and> reconnectAttempts (fst (onclose code r s)) = reconnectAttempts s + 1)
   \<and> (code \<noteq> 1000 \<and> \<not> reconnectAttempts s < maxReconnectAttempts s \<longrightarrow>
        scheduled (snd (onclose code r s)) = [])
   \<and> \<not> isConnected (fst (onclose code r s))
   \<and> (ws s \<longrightarrow> WsClose 1000 ''Client disconnect'' \<in> set (snd (disconnect s)))"
  by (auto simp add: onclose_def attemptReconnect_def disconnect_def Let_def)

theorem C8_close_code_decides_reconnect_witness:
  "scheduled (snd (onclose 1000 ''Client disconnect''
       (fst (onopen (fst (connect ''g'' None init)))))) = []
   \<and> scheduled (snd (onclose 1006 [] (fst (onopen (fst (connect ''g'' None init)))))) = [1000]
   \<and> scheduled (snd (onclose 1006 [] (init\<lparr>reconnectAttempts := 5\<rparr>))) = []
   \<and> WsClose 1000 ''Client disconnect'' \<in> set (snd (disconnect (fst (connect ''g'' None init))))"
  using C8_close_code_decides_reconnect
          [of 1000 "''Client disconnect''" "fst (onopen (fst (connect ''g'' None init)))"]
        C8_close_code_decides_reconnect
          [of 1006 "[]" "fst (onopen (fst (connect ''g'' None init)))"]
        C8_close_code_decides_reconnect [of 1006 "[]" "init\<lparr>reconnectAttempts := 5\<rparr>"]
        C8_close_code_decides_reconnect [of 1000 "[]" "fst (connect ''g'' None init)"]
  by (simp add: onopen_def connect_def init_def Let_def)

section \<open>Session lifecycle\<close>

lemma connect_session:
  "sessionId (fst (connect g None s)) = Some g"
  "sessionId (fst (connect g (Some []) s)) = Some g"
  "sid \<noteq> [] \<Longrightarrow> sessionId (fst (connect g (Some sid) s)) = Some sid"
  by (simp_all add: connect_def)

lemma disconnect_keeps_session:
  "sessionId (fst (disconnect s)) = sessionId s"
  "reconnectAttempts (fst (disconnect s)) = reconnectAttempts s"
  "\<not> isConnected (fst (disconnect s))"
  by (simp_all add: disconnect_def)

text \<open>
  Claim C9. The session is created at \<^verbatim>\<open>connect()\<close> and is to be reset at \<^verbatim>\<open>disconnect()\<close>.
  The code clears the connection flag but not the identifier: after connecting as
  \<open>call-1\<close>, opening and disconnecting, \<^verbatim>\<open>getConnectionStatus()\<close> is false and \<^verbatim>\<open>getSessionId()\<close>
  still returns \<open>call-1\<close>, where its documentation promises \<^verbatim>\<open>null\<close> when not connected.
\<close>

theorem C9_session_id_survives_disconnect:
  "getConnectionStatus
     (fst (disconnect (fst (onopen (fst (connect ''gen'' (Some ''call-1'') init)))))) = False
   \<and> getSessionId
     (fst (disconnect (fst (onopen (fst (connect ''gen'' (Some ''call-1'') init))))))
       = Some ''call-1''"
  by (simp add: getConnectionStatus_def getSessionId_def disconnect_def onopen_def
                connect_def init_def Let_def)

section \<open>EventBus\<close>

lemma bus_step_distinct: "distinct (subscribers s) \<Longrightarrow> distinct (subscribers (bus_step x s))"
  by (cases x) (auto simp: subscribe_def unsubscribe_def distinct_removeAll split: callback.splits)

lemma bus_run_distinct: "distinct (subscribers s) \<Longrightarrow> distinct (subscribers (bus_run xs s))"
  by (induction xs arbitrary: s) (simp_all add: bus_step_distinct)

lemma bus_step_keeps:
  "x \<noteq> Unsubscribe (Function f) \<Longrightarrow> f \<in> set (subscribers s) \<Longrightarrow>
   f \<in> set (subscribers (bus_step x s))"
  by (cases x) (auto simp: subscribe_def unsubscribe_def split: callback.splits)

lemma bus_run_keeps:
  "Unsubscribe (Function f) \<notin> set xs \<Longrightarrow> f \<in> set (subscribers s) \<Longrightarrow>
   f \<in> set (subscribers (bus_run xs s))"
  by (induction xs arbitrary: s) (auto simp: bus_step_keeps)

lemma bus_run_append: "bus_run (xs @ ys) s = bus_run ys (bus_run xs s)"
  by (induction xs arbitrary: s) simp_all

lemma calls_count:
  "length (filter (\<lambda>c. fst c = f) (map (\<lambda>g. (g, e)) xs)) = count_list xs f"
  by (induction xs) simp_all

lemma invocations_count:
  "invocations f (notifySubscribers s e) = count_list (subscribers s) f"
  unfolding invocations_def notifySubscribers_def by (rule calls_count)

lemma count_distinct: "distinct xs \<Longrightarrow> count_list xs f = (if f \<in> set xs then 1 else 0)"
  by (induction xs) auto

lemma init_distinct: "distinct (subscribers init)"
  by (simp add: init_def)

text \<open>
  Claim C10. Starting from the empty subscriber set, after any sequence of subscribe and
  unsubscribe calls in which \<open>subscribe(f)\<close> occurs and is not followed by \<open>unsubscribe(f)\<close>
  (however many further \<open>subscribe(f)\<close> calls there are), one publish of an event calls \<open>f\<close>
  exactly once; and after a single \<open>unsubscribe(f)\<close> a publish does not call \<open>f\<close> at all.
\<close>

theorem C10_subscribe_idempotent:
  assumes "Unsubscribe (Function f) \<notin> set post"
  shows "invocations f (notifySubscribers
           (bus_run (pre @ Subscribe (Function f) # post) init) e) = 1
       \<and> invocations f (notifySubscribers
           (unsubscribe (Function f) (bus_run (pre @ Subscribe (Function f) # post) init)) e) = 0"
proof -
  let ?s1 = "bus_run pre init"
  let ?s2 = "subscribe (Function f) ?s1"
  let ?s3 = "bus_run post ?s2"
  have run: "bus_run (pre @ Subscribe (Function f) # post) init = ?s3"
    by (simp add: bus_run_append)
  have "f \<in> set (subscribers ?s2)"
    by (simp add: subscribe_def)
  then have mem: "f \<in> set (subscribers ?s3)"
    using assms by (rule bus_run_keeps[rotated])
  have dist: "distinct (subscribers ?s3)"
    using bus_run_distinct[OF init_distinct, of "pre @ Subscribe (Function f) # post"] run
    by simp
  have one: "invocations f (notifySubscribers ?s3 e) = 1"
    using mem dist by (simp add: invocations_count count_distinct)
  have "f \<notin> set (subscribers (unsubscribe (Function f) ?s3))"
    by (simp add: unsubscribe_def)
  moreover have "distinct (subscribers (unsubscribe (Function f) ?s3))"
    using dist by (simp add: unsubscribe_def distinct_removeAll)
  ultimately have zero: "invocations f (notifySubscribers (unsubscribe (Function f) ?s3) e) = 0"
    by (simp add: invocations_count count_distinct)
  show ?thesis using one zero run by simp
qed

theorem C10_subscribe_idempotent_witness:
  "Unsubscribe (Function 7) \<notin>
     set [Subscribe (Function 7), Subscribe (Function 3), Subscribe (Function 7)]
   \<and> notifySubscribers
       (bus_run ([Subscribe (Function 3), Unsubscribe (Function 7)] @ Subscribe (Function 7) #
          [Subscribe (Function 7), Subscribe (Function 3), Subscribe (Function 7)]) init)
       (Str ''e'') = [(3, Str ''e''), (7, Str ''e'')]
   \<and> invocations 7 (notifySubscribers
       (bus_run ([Subscribe (Function 3), Unsubscribe (Function 7)] @ Subscribe (Function 7) #
          [Subscribe (Function 7), Subscribe (Function 3), Subscribe (Function 7)]) init)
       (Str ''e'')) = 1
   \<and> invocations 7 (notifySubscribers
       (unsubscribe (Function 7)
         (bus_run ([Subscribe (Function 3), Unsubscribe (Function 7)] @ Subscribe (Function 7) #
            [Subscribe (Function 7), Subscribe (Function 3), Subscribe (Function 7)]) init))
       (Str ''e'')) = 0"
  using C10_subscribe_idempotent
          [of 7 "[Subscribe (Function 7), Subscribe (Function 3), Subscribe (Function 7)]"
              "[Subscribe (Function 3), Unsubscribe (Function 7)]" "Str ''e''"]
  by (simp add: subscribe_def unsubscribe_def notifySubscribers_def init_def)


section \<open>Inbound text frames\<close>


lemma getProp_parseFailed: "getProp (parseFailed e) ''type'' = Some (Str ''error'')"
  by (simp add: parseFailed_def)

text \<open>
  Claim C5. A text frame on which \<^verbatim>\<open>JSON.parse\<close> throws publishes exactly one event, of type
  \<open>error\<close>, which every subscriber receives once; the service object, and with it the session
  identifier and the connection flag, is left as it was. Both clients behave so.
\<close>

theorem C5_parse_failure_one_error:
  assumes "JSON_parse data = None"
  shows "handleMessage JSON_parse nowISO now (Text data) s = (s, [Notify (parseFailed ''SyntaxError'')])
       \<and> handleText_legacy JSON_parse nowISO data s = (s, [Notify (parseFailed ''SyntaxError'')])
       \<and> publishedEvents (snd (handleMessage JSON_parse nowISO now (Text data) s)) = [parseFailed ''SyntaxError'']
       \<and> getProp (parseFailed ''SyntaxError'') ''type'' = Some (Str ''error'')
       \<and> deliveries s (snd (handleMessage JSON_parse nowISO now (Text data) s))
            = map (\<lambda>f. (f, parseFailed ''SyntaxError'')) (subscribers s)
       \<and> sessionId (fst (handleMessage JSON_parse nowISO now (Text data) s)) = sessionId s
       \<and> isConnected (fst (handleMessage JSON_parse nowISO now (Text data) s)) = isConnected s"
  using assms
  by (simp add: handleMessage_def handleText_def handleText_legacy_def deliveries_def
        notifySubscribers_def getProp_parseFailed)

theorem C5_parse_failure_one_error_witness:
  "Map.empty ''{oops'' = (None :: jsval option)
   \<and> handleMessage Map.empty ''2026-01-01T00:00:00.000Z'' 0 (Text ''{oops'')
        (fst (onopen (fst (connect ''g'' (Some ''call-1'') init))))
      = (fst (onopen (fst (connect ''g'' (Some ''call-1'') init))),
         [Notify (Obj [(''type'', Str ''error''), (''message'', Str ''Failed to parse message''),
                       (''error'', ErrorObj ''SyntaxError'')])])"
  using C5_parse_failure_one_error[of Map.empty "''{oops''" "''2026-01-01T00:00:00.000Z''" 0
      "fst (onopen (fst (connect ''g'' (Some ''call-1'') init)))"]
  by (simp add: parseFailed_def)

lemma processMessage_unknown:
  assumes "getProp m ''type'' = Some t" "t \<notin> Str ` set knownTags"
  shows "processMessage nowISO m = Inr []"
  using assms by (auto simp add: processMessage_def knownTags_def)

lemma processMessage_legacy_unknown:
  assumes "getProp m ''type'' = Some t" "t \<notin> Str ` set knownTags_legacy"
  shows "processMessage_legacy nowISO m = Inr [Notify (Obj [(''type'', Str ''unknown''), (''message'', m)])]"
  using assms by (auto simp add: processMessage_legacy_def knownTags_legacy_def)

text \<open>
  Claim C2, as amended. A text frame that decodes to a value whose \<open>type\<close> is none of the known
  tags publishes no event in the nirnay-ui client and leaves the service as it was; the
  older client publishes exactly one event of type \<open>unknown\<close> that carries the decoded
  message.
\<close>

theorem C2_unknown_tag:
  assumes "JSON_parse data = Some m" and "getProp m ''type'' = Some t"
  shows "(t \<notin> Str ` set knownTags \<longrightarrow>
            handleMessage JSON_parse nowISO now (Text data) s = (s, []))
       \<and> (t \<notin> Str ` set knownTags_legacy \<longrightarrow>
            handleText_legacy JSON_parse nowISO data s
              = (s, [Notify (Obj [(''type'', Str ''unknown''), (''message'', m)])]))"
  using assms
  by (simp add: handleMessage_def handleText_def handleText_legacy_def
        processMessage_unknown processMessage_legacy_unknown)

theorem C2_unknown_tag_witness:
  \<open>[''{"type":"heartbeat"}'' \<mapsto> Obj [(''type'', Str ''heartbeat'')]] ''{"type":"heartbeat"}''
      = Some (Obj [(''type'', Str ''heartbeat'')])
   \<and> getProp (Obj [(''type'', Str ''heartbeat'')]) ''type'' = Some (Str ''heartbeat'')
   \<and> Str ''heartbeat'' \<notin> Str ` set knownTags
   \<and> Str ''heartbeat'' \<notin> Str ` set knownTags_legacy
   \<and> handleMessage [''{"type":"heartbeat"}'' \<mapsto> Obj [(''type'', Str ''heartbeat'')]] ''now'' 0
        (Text ''{"type":"heartbeat"}'') init = (init, [])
   \<and> handleText_legacy [''{"type":"heartbeat"}'' \<mapsto> Obj [(''type'', Str ''heartbeat'')]] ''now''
        ''{"type":"heartbeat"}'' init
      = (init, [Notify (Obj [(''type'', Str ''unknown''),
                             (''message'', Obj [(''type'', Str ''heartbeat'')])])])\<close>
  using C2_unknown_tag[of \<open>[''{"type":"heartbeat"}'' \<mapsto> Obj [(''type'', Str ''heartbeat'')]]\<close>
      \<open>''{"type":"heartbeat"}''\<close> "Obj [(''type'', Str ''heartbeat'')]" "Str ''heartbeat''"
      "''now''" 0 init]
  by (simp add: knownTags_def knownTags_legacy_def)

text \<open>The older client at the envelope \<^verbatim>\<open>{"type":"heartbeat"}\<close>: one event is published,
  not zero.\<close>

theorem C2_legacy_publishes_unknown:
  \<open>length (publishedEvents (snd (handleText_legacy
      [''{"type":"heartbeat"}'' \<mapsto> Obj [(''type'', Str ''heartbeat'')]] ''now''
      ''{"type":"heartbeat"}'' init))) = 1\<close>
  by (simp add: handleText_legacy_def processMessage_legacy_def)


section \<open>PCM encoding\<close>


lemma int16_store_int:
  assumes "- 32768 \<le> k" "k \<le> 32767"
  shows "int16_store (real_of_int k) = k"
proof -
  have t: "(if real_of_int k < 0 then - \<lfloor>- real_of_int k\<rfloor> else \<lfloor>real_of_int k\<rfloor>) = k"
    by (metis floor_of_int of_int_minus minus_minus)
  have "(k + 32768) mod 65536 = k + 32768"
    using assms by (simp add: mod_pos_pos_trivial)
  then show ?thesis
    unfolding int16_store_def Let_def t by simp
qed

lemma encodeSample_eq:
  "encodeSample x = max (- 32768) (min 32767 (round (max (- 1) (min 1 x) * 32768)))"
proof -
  let ?r = "round (max (- 1) (min 1 x) * 32768)"
  let ?k = "max (- 32768) (min 32767 ?r)"
  have "max (- 32768) (min 32767 (real_of_int ?r)) = real_of_int ?k"
    by (simp add: max_def min_def)
  moreover have "- 32768 \<le> ?k" "?k \<le> 32767" by simp_all
  ultimately show ?thesis
    unfolding encodeSample_def Let_def by (simp only: int16_store_int)
qed

lemma clamp_bounds: "- 1 \<le> max (- 1) (min 1 (x::real))" "max (- 1) (min 1 (x::real)) \<le> 1"
  by simp_all

lemma round_scaled_lower:
  assumes "- 1 \<le> (s::real)"
  shows "- 32768 \<le> round (s * 32768)"
proof -
  have "real_of_int (- 32768) \<le> s * 32768" using assms by simp
  then have "round (real_of_int (- 32768)) \<le> round (s * 32768)" by (rule round_mono)
  then show ?thesis by simp
qed

lemma round_scaled_upper:
  assumes "(s::real) \<le> 1"
  shows "round (s * 32768) \<le> 32768"
proof -
  have "s * 32768 \<le> real_of_int 32768" using assms by simp
  then have "round (s * 32768) \<le> round (real_of_int 32768)" by (rule round_mono)
  then show ?thesis by simp
qed

lemma encodeSample_nearest:
  "\<bar>real_of_int (encodeSample x) - max (- 1) (min 1 x) * 32768\<bar> \<le> 1 / 2
   \<or> (encodeSample x = 32767 \<and> round (max (- 1) (min 1 x) * 32768) = 32768)"
proof -
  let ?s = "max (- 1) (min 1 x)"
  let ?r = "round (?s * 32768)"
  have lo: "- 32768 \<le> ?r" using round_scaled_lower[OF clamp_bounds(1)] .
  have hi: "?r \<le> 32768" using round_scaled_upper[OF clamp_bounds(2)] .
  show ?thesis
  proof (cases "?r = 32768")
    case True
    then show ?thesis by (simp add: encodeSample_eq)
  next
    case False
    with hi have "?r \<le> 32767" by simp
    with lo have "encodeSample x = ?r" by (simp add: encodeSample_eq)
    moreover have "\<bar>real_of_int ?r - ?s * 32768\<bar> \<le> 1 / 2"
      using of_int_round_abs_le[of "?s * 32768"] by simp
    ultimately show ?thesis by simp
  qed
qed

lemma encodeSample_ends:
  "encodeSample (- 1) = - 32768" "encodeSample 0 = 0" "encodeSample 1 = 32767"
  by (simp_all add: encodeSample_eq)

lemma encodeSample_range: "- 32768 \<le> encodeSample x \<and> encodeSample x \<le> 32767"
  by (simp add: encodeSample_eq)

lemma encodeSample_clamps: "encodeSample x = encodeSample (max (- 1) (min 1 x))"
  by (simp add: encodeSample_eq)

lemma int16_store_small:
  assumes "- 32768 \<le> v" "v \<le> 32767"
  shows "int16_store v = (if v < 0 then - \<lfloor>- v\<rfloor> else \<lfloor>v\<rfloor>)"
proof -
  let ?t = "(if v < 0 then - \<lfloor>- v\<rfloor> else \<lfloor>v\<rfloor>)"
  have "- 32768 \<le> ?t"
  proof (cases "v < 0")
    case True
    have "- v \<le> 32768" using assms by simp
    then have "\<lfloor>- v\<rfloor> \<le> 32768" by (simp add: floor_le_iff)
    then show ?thesis using True by simp
  next
    case False
    then have "0 \<le> \<lfloor>v\<rfloor>" by simp
    then show ?thesis using False by simp
  qed
  moreover have "?t \<le> 32767"
  proof (cases "v < 0")
    case True
    then have "0 \<le> - v" by simp
    then have "0 \<le> \<lfloor>- v\<rfloor>" by (simp only: zero_le_floor)
    then show ?thesis using True by (simp only: if_True)
  next
    case False
    have "\<lfloor>v\<rfloor> \<le> 32767" using assms by (simp add: floor_le_iff)
    then show ?thesis using False by simp
  qed
  ultimately have "(?t + 32768) mod 65536 = ?t + 32768"
    by (simp add: mod_pos_pos_trivial)
  then show ?thesis unfolding int16_store_def Let_def by simp
qed

lemma encodeSample_legacy_eq:
  "encodeSample_legacy x =
     (let s = max (- 1) (min 1 x)
      in if s < 0 then - \<lfloor>- (s * 32768)\<rfloor> else \<lfloor>s * 32767\<rfloor>)"
proof -
  let ?s = "max (- 1) (min 1 x)"
  let ?v = "if ?s < 0 then ?s * 32768 else ?s * 32767"
  have b: "- 1 \<le> ?s" "?s \<le> 1" by simp_all
  have "- 32768 \<le> ?v" using b(1) by (auto simp: not_less intro: order_trans[of _ 0])
  moreover have "?v \<le> 32767" using b(2) by (auto intro: order_trans[of _ 0])
  ultimately have "int16_store ?v = (if ?v < 0 then - \<lfloor>- ?v\<rfloor> else \<lfloor>?v\<rfloor>)"
    by (rule int16_store_small)
  moreover have "(?v < 0) = (?s < 0)"
    by (auto simp: mult_less_0_iff not_less zero_le_mult_iff)
  ultimately show ?thesis
    unfolding encodeSample_legacy_def Let_def by (simp split: if_splits)
qed

lemma encodeSample_legacy_ends:
  "encodeSample_legacy (- 1) = - 32768" "encodeSample_legacy 0 = 0" "encodeSample_legacy 1 = 32767"
  by (simp_all add: encodeSample_legacy_eq)

lemma encodeSample_legacy_range:
  "- 32768 \<le> encodeSample_legacy x \<and> encodeSample_legacy x \<le> 32767"
proof -
  let ?s = "max (- 1) (min 1 x)"
  have b: "- 1 \<le> ?s" "?s \<le> 1" by simp_all
  show ?thesis
  proof (cases "?s < 0")
    case True
    have "- (?s * 32768) \<le> 32768" using b(1) by simp
    then have "\<lfloor>- (?s * 32768)\<rfloor> \<le> 32768" by (simp add: floor_le_iff)
    moreover have "0 \<le> - (?s * 32768)" using True by simp
    then have "0 \<le> \<lfloor>- (?s * 32768)\<rfloor>" by (simp only: zero_le_floor)
    ultimately have "- 32768 \<le> - \<lfloor>- (?s * 32768)\<rfloor> \<and> - \<lfloor>- (?s * 32768)\<rfloor> \<le> 32767"
      by linarith
    moreover have "encodeSample_legacy x = - \<lfloor>- (?s * 32768)\<rfloor>"
      using True unfolding encodeSample_legacy_eq Let_def by (simp only: if_True)
    ultimately show ?thesis by (simp only:)
  next
    case False
    have "?s * 32767 \<le> 32767" using b(2) by simp
    then have "\<lfloor>?s * 32767\<rfloor> \<le> 32767" by (simp add: floor_le_iff)
    moreover have "0 \<le> \<lfloor>?s * 32767\<rfloor>" using False by simp
    ultimately show ?thesis using False by (simp add: encodeSample_legacy_eq Let_def)
  qed
qed

text \<open>
  Claim C3, as amended. The nirnay-ui client clamps the sample to \<open>[-1, 1]\<close>, multiplies by
  32768, rounds to the nearest integer and clamps to \<open>[-32768, 32767]\<close>: the result is within
  one half of the scaled sample unless that rounds to 32768, which is stored as 32767. The
  older client multiplies a negative clamped sample by 32768 and any other by 32767 and
  truncates towards zero. In both clients the result lies in the 16-bit range and \<open>-1\<close>, \<open>0\<close>,
  \<open>1\<close> encode as \<open>-32768\<close>, \<open>0\<close>, \<open>32767\<close>.
\<close>

theorem C3_pcm_encoding:
  "(- 32768 \<le> encodeSample x \<and> encodeSample x \<le> 32767)
   \<and> encodeSample x = encodeSample (max (- 1) (min 1 x))
   \<and> encodeSample x = max (- 32768) (min 32767 (round (max (- 1) (min 1 x) * 32768)))
   \<and> (\<bar>real_of_int (encodeSample x) - max (- 1) (min 1 x) * 32768\<bar> \<le> 1 / 2
        \<or> (encodeSample x = 32767 \<and> round (max (- 1) (min 1 x) * 32768) = 32768))
   \<and> encodeSample (- 1) = - 32768 \<and> encodeSample 0 = 0 \<and> encodeSample 1 = 32767
   \<and> (- 32768 \<le> encodeSample_legacy x \<and> encodeSample_legacy x \<le> 32767)
   \<and> encodeSample_legacy x =
        (let s = max (- 1) (min 1 x)
         in if s < 0 then - \<lfloor>- (s * 32768)\<rfloor> else \<lfloor>s * 32767\<rfloor>)
   \<and> encodeSample_legacy (- 1) = - 32768 \<and> encodeSample_legacy 0 = 0
   \<and> encodeSample_legacy 1 = 32767"
  using encodeSample_range[of x] encodeSample_clamps[of x] encodeSample_eq[of x]
        encodeSample_nearest[of x] encodeSample_ends encodeSample_legacy_range[of x]
        encodeSample_legacy_eq[of x] encodeSample_legacy_ends
  by blast

text \<open>The older client at the sample \<open>2^-14\<close>: the scaled value is just below 2 and is stored
  as 1, not as the nearest integer 2 (which the nirnay-ui client stores).\<close>

theorem C3_legacy_truncates:
  "encodeSample_legacy (1 / 16384) = 1 \<and> round ((1 / 16384) * 32767 :: real) = 2
   \<and> round ((1 / 16384) * 32768 :: real) = 2 \<and> encodeSample (1 / 16384) = 2"
  by (simp add: encodeSample_legacy_eq encodeSample_eq round_def floor_eq_iff)


section \<open>Capture chunks\<close>


lemma onaudioprocess_emit:
  "chunkSize \<le> length (buf @ b) \<Longrightarrow>
   onaudioprocess True buf b = (drop chunkSize (buf @ b), Some (take chunkSize (buf @ b)))"
  by (simp add: onaudioprocess_def Let_def)

lemma onaudioprocess_keep:
  "length (buf @ b) < chunkSize \<Longrightarrow> onaudioprocess True buf b = (buf @ b, None)"
  by (simp add: onaudioprocess_def Let_def)

lemma onaudioprocess_chunk_length:
  "onaudioprocess active buf b = (buf', Some c) \<Longrightarrow> length c = chunkSize"
  by (auto simp add: onaudioprocess_def Let_def split: if_splits)

lemma capture_chunk_lengths:
  "list_all (\<lambda>c. length c = chunkSize) (snd (capture True buf blocks))"
proof (induction blocks arbitrary: buf)
  case Nil
  then show ?case by simp
next
  case (Cons b bs)
  obtain buf' r where o: "onaudioprocess True buf b = (buf', r)" by (cases "onaudioprocess True buf b")
  show ?case
  proof (cases r)
    case None
    then show ?thesis using o Cons.IH[of buf'] by simp
  next
    case (Some c)
    then have "length c = chunkSize" using o onaudioprocess_chunk_length by blast
    then show ?thesis using o Some Cons.IH[of buf'] by (auto split: prod.splits)
  qed
qed

lemma capture_below:
  "length (buf @ concat blocks) < chunkSize \<Longrightarrow> capture True buf blocks = (buf @ concat blocks, [])"
proof (induction blocks arbitrary: buf)
  case Nil
  then show ?case by simp
next
  case (Cons b bs)
  then have "length (buf @ b) < chunkSize" by simp
  then have o: "onaudioprocess True buf b = (buf @ b, None)" by (rule onaudioprocess_keep)
  have "capture True (buf @ b) bs = ((buf @ b) @ concat bs, [])"
    using Cons.IH[of "buf @ b"] Cons.prems by simp
  then show ?case using o by simp
qed

lemma capture_once:
  assumes "length buf < chunkSize" "chunkSize \<le> length (buf @ concat blocks)"
    "length (buf @ concat blocks) < 2 * chunkSize"
  shows "capture True buf blocks =
           (drop chunkSize (buf @ concat blocks), [take chunkSize (buf @ concat blocks)])"
  using assms
proof (induction blocks arbitrary: buf)
  case Nil
  then show ?case by simp
next
  case (Cons b bs)
  show ?case
  proof (cases "chunkSize \<le> length (buf @ b)")
    case True
    then have o: "onaudioprocess True buf b = (drop chunkSize (buf @ b), Some (take chunkSize (buf @ b)))"
      by (rule onaudioprocess_emit)
    have "length (drop chunkSize (buf @ b) @ concat bs) < chunkSize"
      using Cons.prems True by simp
    then have c: "capture True (drop chunkSize (buf @ b)) bs = (drop chunkSize (buf @ b) @ concat bs, [])"
      by (rule capture_below)
    have d: "drop chunkSize (buf @ concat (b # bs)) = drop chunkSize (buf @ b) @ concat bs"
      using True by simp
    have t: "take chunkSize (buf @ concat (b # bs)) = take chunkSize (buf @ b)"
      using True by simp
    show ?thesis unfolding d t using o c by simp
  next
    case False
    then have lt: "length (buf @ b) < chunkSize" by simp
    then have o: "onaudioprocess True buf b = (buf @ b, None)" by (rule onaudioprocess_keep)
    have "capture True (buf @ b) bs =
            (drop chunkSize ((buf @ b) @ concat bs), [take chunkSize ((buf @ b) @ concat bs)])"
      using Cons.IH[of "buf @ b"] lt Cons.prems by simp
    then show ?thesis using o by simp
  qed
qed

lemma sendAudioChunk_samples:
  assumes "isConnected s" "ws s" "xs \<noteq> []"
  shows "sendAudioChunk True (Float32Array xs) s = [WsSendInt16 (map encodeSample xs)]"
    and "length (map encodeSample xs) = length xs"
    and "sendAudioChunk False (Float32Array xs) s = []"
  using assms by (simp_all add: sendAudioChunk_def)

text \<open>
  Chunking with the guard true, as in nirnay-ui while recording: blocks that add up to
  exactly 8000 samples produce exactly one chunk, all 8000 samples, and leave the buffer
  empty; blocks that add up to 8001 samples produce one chunk of the first 8000 and leave
  the last sample buffered; every chunk ever emitted, from any buffer and any blocks, has
  exactly 8000 samples. The same holds for a single callback; a callback whose guard is
  false emits nothing and buffers nothing.
\<close>

lemma chunks_of_threshold_size:
  "(length (concat blocks) = 8000 \<longrightarrow> capture True [] blocks = ([], [concat blocks]))
   \<and> (length (concat blocks) = 8001 \<longrightarrow>
        capture True [] blocks = ([last (concat blocks)], [butlast (concat blocks)]))
   \<and> list_all (\<lambda>c. length c = 8000) (snd (capture True buf blocks))
   \<and> (active \<longrightarrow> length (buf @ inputData) = 8000 \<longrightarrow>
        onaudioprocess active buf inputData = ([], Some (buf @ inputData)))
   \<and> (active \<longrightarrow> length (buf @ inputData) = 8001 \<longrightarrow>
        onaudioprocess active buf inputData
          = ([last (buf @ inputData)], Some (butlast (buf @ inputData))))
   \<and> (\<not> active \<longrightarrow> onaudioprocess active buf inputData = (buf, None))"
proof -
  have tl1: "\<And>xs :: real list. length xs = 8001 \<Longrightarrow> drop 8000 xs = [last xs]"
  proof -
    fix xs :: "real list" assume l: "length xs = 8001"
    then have "xs \<noteq> []" by auto
    then have "xs = butlast xs @ [last xs]" by simp
    moreover have "length (butlast xs) = 8000" using l by simp
    ultimately show "drop 8000 xs = [last xs]"
      by (metis append_eq_conv_conj)
  qed
  have hd1: "\<And>xs :: real list. length xs = 8001 \<Longrightarrow> take 8000 xs = butlast xs"
    by (simp add: butlast_conv_take)
  have a: "length (concat blocks) = 8000 \<longrightarrow> capture True [] blocks = ([], [concat blocks])"
    using capture_once[of "[]" blocks] by (simp add: chunkSize_def)
  have b: "length (concat blocks) = 8001 \<longrightarrow>
        capture True [] blocks = ([last (concat blocks)], [butlast (concat blocks)])"
    using capture_once[of "[]" blocks] tl1[of "concat blocks"] hd1[of "concat blocks"]
    by (simp add: chunkSize_def)
  have c: "list_all (\<lambda>c. length c = 8000) (snd (capture True buf blocks))"
    using capture_chunk_lengths[of buf blocks] by (simp add: chunkSize_def)
  have d: "active \<longrightarrow> length (buf @ inputData) = 8000 \<longrightarrow>
        onaudioprocess active buf inputData = ([], Some (buf @ inputData))"
    by (simp add: onaudioprocess_def chunkSize_def Let_def)
  have e: "active \<longrightarrow> length (buf @ inputData) = 8001 \<longrightarrow>
        onaudioprocess active buf inputData
          = ([last (buf @ inputData)], Some (butlast (buf @ inputData)))"
    using tl1[of "buf @ inputData"] hd1[of "buf @ inputData"]
    by (simp add: onaudioprocess_def chunkSize_def Let_def del: drop_append take_append butlast_append last_append)
  have f: "\<not> active \<longrightarrow> onaudioprocess active buf inputData = (buf, None)"
    by (simp add: onaudioprocess_def)
  show ?thesis using a b c d e f by blast
qed

lemma chunks_of_threshold_size_example:
  "length (concat [replicate 8000 (0::real)]) = 8000
   \<and> capture True [] [replicate 8000 0] = ([], [replicate 8000 0])
   \<and> length (concat [replicate 4096 (0::real), replicate 3905 1]) = 8001
   \<and> capture True [] [replicate 4096 0, replicate 3905 1]
       = ([1], [replicate 4096 0 @ replicate 3904 1])
   \<and> onaudioprocess False [0, 1] [1, 0] = ([0, 1], None)"
proof -
  have b1: "butlast (replicate 3905 (1::real)) = replicate 3904 1"
    by (simp add: butlast_conv_take)
  have l1: "last (replicate 3905 (1::real)) = 1" by simp
  have "capture True [] [replicate 8000 (0::real)] = ([], [replicate 8000 0])"
    using chunks_of_threshold_size[of "[replicate 8000 0]" "[]" True "[]"] by simp
  moreover have "capture True [] [replicate 4096 0, replicate 3905 (1::real)]
       = ([1], [replicate 4096 0 @ replicate 3904 1])"
    using chunks_of_threshold_size[of "[replicate 4096 0, replicate 3905 1]" "[]" True "[]"] b1 l1
    by (simp add: butlast_append del: capture.simps)
  moreover have "onaudioprocess False [0, 1] [1, 0::real] = ([0, 1], None)"
    using chunks_of_threshold_size[of "[]" "[0, 1]" False "[1, 0]"] by simp
  ultimately show ?thesis by simp
qed

lemma capture_guard_false: "capture False buf blocks = (buf, [])"
  by (induction blocks) (simp_all add: onaudioprocess_def)

lemma toggleRecording_legacy_never_emits:
  "toggleRecording_legacy isRecording blocks = None
   \<or> toggleRecording_legacy isRecording blocks = Some ([], [])"
  by (simp add: toggleRecording_legacy_def startRecording_legacy_def capture_guard_false)

lemma startRecording_one_chunk:
  "startRecording [replicate 8000 0] = ([], [replicate 8000 0])"
  using chunks_of_threshold_size[of "[replicate 8000 0]" "[]" True "[]"]
  by (simp add: startRecording_def)

text \<open>
  Claim C4. With the threshold of 8000 samples, 8000 accumulated samples are to produce
  exactly one chunk of 8000 samples and an empty remainder. nirnay-ui does so. In the older
  \<^verbatim>\<open>App.jsx\<close> recording is started from a render in which \<^verbatim>\<open>isRecording\<close> is false, the callback
  keeps that value, and on a block of 8000 samples (or on the 8192 samples the processor
  delivers) it returns before appending: nothing is buffered and no chunk is emitted.
\<close>

theorem C4_legacy_guard_never_true:
  "toggleRecording_legacy False [replicate 8000 0] = Some ([], [])
   \<and> toggleRecording_legacy False [replicate 8192 0] = Some ([], [])
   \<and> toggleRecording_legacy True [replicate 8000 0] = None
   \<and> startRecording [replicate 8000 0] = ([], [replicate 8000 0])"
  using startRecording_one_chunk
  by (simp add: toggleRecording_legacy_def startRecording_legacy_def capture_guard_false
           del: capture.simps)

section \<open>Playback scheduling\<close>















section \<open>Idle flush\<close>







end
